theory Spec2Isabelle
  imports Complex_Main "HOL-Library.Sublist"
begin

section \<open>Data model (src/types.ts)\<close>

text \<open>
  Strings are \<^typ>\<open>string\<close>; a character stands for one UTF-16 code unit below 256, which
  covers every string literal of the sources that the model uses.
\<close>

datatype ImageSize = Size1K | Size2K | Size4K

datatype AspectRatio = R1_1 | R3_4 | R4_3 | R9_16 | R16_9

datatype FilmStock =
    KodakPortra400
  | KodakGold200
  | KodakEktachromeE100
  | KodakTriX400BW
  | FujifilmVelvia50
  | FujifilmProvia100F
  | FujifilmPro400H
  | IlfordHP5PlusBW
  | Cinestill800T

datatype ISOValue = ISO200 | ISO400 | ISO800 | ISO1600

fun iso_number :: "ISOValue \<Rightarrow> nat" where
  "iso_number ISO200 = 200"
| "iso_number ISO400 = 400"
| "iso_number ISO800 = 800"
| "iso_number ISO1600 = 1600"

text \<open>
  \<open>ProcessedImage\<close>: \<open>selected\<close> is optional in the interface, so it is an option;
  \<open>skinDetail\<close> is the integer the range input delivers through \<open>parseInt\<close>.
\<close>

record ProcessedImage =
  p_id :: string
  p_originalUrl :: string
  p_processedUrl :: string
  p_timestamp :: nat
  p_prompt :: string
  p_size :: ImageSize
  p_aspectRatio :: AspectRatio
  p_filmStock :: FilmStock
  p_iso :: ISOValue
  p_skinDetail :: int
  p_selected :: "bool option"

datatype Status = Idle | CheckingKey | Uploading | Processing | Error

record ProcessingState =
  status :: Status
  message :: "string option"

section \<open>Application state (the hooks of \<open>App\<close> and the two browser stores)\<close>

text \<open>
  One field per \<open>useState\<close> hook of \<open>App\<close>. \<open>sessionFlag\<close> is the value that
  \<open>sessionStorage\<close> holds under \<open>SESSION_KEY\<close> (no other key is ever used).
\<close>

record AppState =
  originalBase64 :: "string option"
  processedUrl :: "string option"
  processingState :: ProcessingState
  imageSize :: ImageSize
  aspectRatio :: AspectRatio
  filmStock :: FilmStock
  iso :: ISOValue
  skinDetail :: int
  history :: "ProcessedImage list"
  compareMode :: bool
  zoomScale :: rat
  isKeyReady :: bool
  showKeyModal :: bool
  sessionFlag :: "string option"
  table :: "ProcessedImage list"

section \<open>Number rendering\<close>

text \<open>\<open>Number.prototype.toString\<close> on a non-negative integer: its decimal digits.\<close>

fun toString :: "nat \<Rightarrow> string" where
  "toString n =
     (if n < 10 then [''0123456789'' ! n]
      else toString (n div 10) @ [''0123456789'' ! (n mod 10)])"

section \<open>Prompt construction\<close>

definition skin_light :: string where
  \<open>skin_light = ''Apply a light photographic grain and micro-texture to the skin, effectively removing synthetic digital smoothness while keeping the character's appearance clean and polished.''\<close>

definition skin_high :: string where
  \<open>skin_high = ''Apply professional high-fidelity skin reconstruction. Focus on restoring intricate skin details like natural pore structure and fine organic textures. The result should feel raw and authentic, resembling an unretouched high-resolution film negative, while honoring the character's original features and avoiding any exaggerated blemishes.''\<close>

definition skin_balanced :: string where
  \<open>skin_balanced = ''Restore realistic skin texture with natural variation. Preserve the character's features while adding the subtle depth and organic feel of real skin, effectively bridging the gap between digital generation and authentic photography.''\<close>

definition BASE_PROMPT_TEMPLATE :: "int \<Rightarrow> string" where
  "BASE_PROMPT_TEMPLATE intensity =
     (let skinPrompt =
        (if intensity < 30 then skin_light
         else if intensity > 70 then skin_high
         else skin_balanced)
      in ''A portrait with '' @ skinPrompt
         @ '', while maintaining consistent lighting, props, and set design.'')"

fun FILM_STOCK_CHARACTERISTICS :: "FilmStock \<Rightarrow> string" where
  \<open>FILM_STOCK_CHARACTERISTICS KodakPortra400 = ''Legendary skin tones. Warm, golden hues with a natural highlight roll-off. Ideal for portraits requiring a soft, organic feel.''\<close>
| \<open>FILM_STOCK_CHARACTERISTICS KodakGold200 = ''The classic consumer aesthetic. Saturated yellows and punchy reds with a warm, nostalgic 90s snapshot vibe.''\<close>
| \<open>FILM_STOCK_CHARACTERISTICS KodakEktachromeE100 = ''Professional color reversal film. Exceptional sharpness, clean cool shadows, and neutral, realistic whites.''\<close>
| \<open>FILM_STOCK_CHARACTERISTICS KodakTriX400BW = ''High-contrast monochrome. Gritty, punchy textures with deep blacks and a legendary journalistic character.''\<close>
| \<open>FILM_STOCK_CHARACTERISTICS FujifilmVelvia50 = ''Hyper-saturated color. Intense greens and magentas with very high contrast. A distinctive, high-drama slide film look.''\<close>
| \<open>FILM_STOCK_CHARACTERISTICS FujifilmProvia100F = ''Balanced professional slide film. Neutral color reproduction with incredible sharpness and fine grain structure.''\<close>
| \<open>FILM_STOCK_CHARACTERISTICS FujifilmPro400H = ''Pastel palette. Soft, airy tones with a signature subtle cyan/green tint in the shadows. Perfect for ethereal lighting.''\<close>
| \<open>FILM_STOCK_CHARACTERISTICS IlfordHP5PlusBW = ''Classic street photography film. Wide tonal range with a punchy, organic grain that feels raw and authentic.''\<close>
| \<open>FILM_STOCK_CHARACTERISTICS Cinestill800T = ''Cinematic tungsten-balanced film. Unique "red glow" halation around bright lights with a cool, moody night-time color shift.''\<close>

text \<open>
  \<open>buildFinalPrompt\<close> is a closure over the hooks; it reads \<open>skinDetail\<close>, \<open>iso\<close> and
  \<open>filmStock\<close> of the state it was rendered with.
\<close>

definition buildFinalPrompt :: "AppState \<Rightarrow> string" where
  "buildFinalPrompt s =
     (let basePrompt = BASE_PROMPT_TEMPLATE (skinDetail s);
          grainPrompt = ''Add a substantial amount of organic film grain, resembling a ''
            @ toString (iso_number (iso s))
            @ '' ISO film to the image, preserving the original aesthetic. The grain should feel raw and authentic.'';
          stockPrompt = FILM_STOCK_CHARACTERISTICS (filmStock s)
      in basePrompt @ '' '' @ stockPrompt @ '' '' @ grainPrompt)"


section \<open>JavaScript helpers\<close>

text \<open>Truthiness of an optional string: \<open>undefined\<close> and the empty string are falsy.\<close>

fun truthy :: "string option \<Rightarrow> bool" where
  "truthy None = False"
| "truthy (Some t) = (t \<noteq> [])"

text \<open>\<open>v || d\<close> on an optional string.\<close>

fun or_else :: "string option \<Rightarrow> string \<Rightarrow> string" where
  "or_else None d = d"
| "or_else (Some t) d = (if t \<noteq> [] then t else d)"

text \<open>\<open>s.startsWith(t)\<close> and \<open>s.includes(t)\<close>.\<close>

definition startsWith :: "string \<Rightarrow> string \<Rightarrow> bool" where
  "startsWith s t = (take (length t) s = t)"

fun includes' :: "string \<Rightarrow> string \<Rightarrow> bool" where
  "includes' [] t = (t = [])"
| "includes' (c # s) t = (startsWith (c # s) t \<or> includes' s t)"

text \<open>
  \<open>String.prototype.trim\<close> strips white space and line terminators from both ends; among
  the code units below 256 these are TAB, LF, VT, FF, CR, SPACE and NBSP.
\<close>

definition isWhiteSpace :: "char \<Rightarrow> bool" where
  "isWhiteSpace c = (of_char c \<in> {9, 10, 11, 12, 13, 32, 160 :: nat})"

definition trim :: "string \<Rightarrow> string" where
  "trim s = rev (dropWhile isWhiteSpace (rev (dropWhile isWhiteSpace s)))"

text \<open>
  A thrown value as the handlers read it: \<open>message\<close> (absent on a value that is not an
  \<open>Error\<close>) and \<open>status\<close>, which \<open>=== 403\<close> compares without conversion.
\<close>

datatype JsValue = Undefined | Number int | String string

record JsError =
  err_message :: "string option"
  err_status :: JsValue

definition new_Error :: "string \<Rightarrow> JsError" where
  "new_Error m = \<lparr>err_message = Some m, err_status = Undefined\<rparr>"

section \<open>The service call (src/services/geminiService.ts)\<close>

text \<open>
  The part of the SDK's response that \<open>processImage\<close> reads. \<open>inlineData\<close>, when present,
  carries its base64 \<open>data\<close> string.
\<close>

record Blob =
  data :: string
  mimeType :: string

record Part =
  inlineData :: "Blob option"
  text' :: "string option"

record Content =
  parts :: "Part list option"

record Candidate =
  finishReason :: "string option"
  content :: "Content option"

record GenerateContentResponse =
  candidates :: "Candidate list option"

definition MSG_NO_CANDIDATES :: string where
  \<open>MSG_NO_CANDIDATES = ''REJECTION: The Lab could not process this image. WHY: The source image triggered automated safety filters, which often happens with content that is interpreted as sensitive or restricted. REMEDY: Please try a different photo. Ensure the subject is clearly a standard portrait and the composition is neutral.''\<close>

definition MSG_SAFETY :: string where
  \<open>MSG_SAFETY = ''REJECTION: Development halted due to safety guardrails. WHY: The Emulsion Engine detected features in the image that are restricted for processing. This is a common precaution for certain types of portraits. REMEDY: Try an image with more standard lighting, a clear head-and-shoulders crop, or a different character subject.''\<close>

definition MSG_RECITATION :: string where
  \<open>MSG_RECITATION = ''REJECTION: Style processing failed. WHY: The requested development style or the subject matter closely matches protected content or copyright-sensitive material. REMEDY: Try a different film stock or a less specific subject to proceed with development.''\<close>

definition MSG_OTHER :: string where
  \<open>MSG_OTHER = ''REJECTION: An unexpected lab interruption occurred. WHY: The model encountered an internal error or the content was rejected for an unspecified safety reason. REMEDY: Attempt the development again with a slightly different grain intensity or a new source image.''\<close>

definition MSG_REFUSAL :: "string \<Rightarrow> string" where
  \<open>MSG_REFUSAL why = ''REJECTION: The Lab encountered a problem. WHY: '' @ why @ '' REMEDY: Adjust your input image or settings to resolve the concern mentioned above.''\<close>

definition MSG_NO_IMAGE :: string where
  \<open>MSG_NO_IMAGE = ''REJECTION: The Lab was unable to generate the new texture. WHY: Although the image was accepted, the reconstruction process failed to complete safely. REMEDY: Please try a different image. Ensure the person is in a well-lit environment and the framing is a typical photographic portrait.''\<close>

definition MSG_PERMISSION_DENIED :: string where
  \<open>MSG_PERMISSION_DENIED = ''PERMISSION_DENIED: gemini-3-pro-image-preview requires a PAID API key from a Google Cloud project with billing enabled. Please check your project status at ai.google.dev/gemini-api/docs/billing''\<close>

definition MSG_KEY_RESET :: string where
  \<open>MSG_KEY_RESET = ''KEY_RESET_REQUIRED''\<close>

definition MSG_RATE_LIMIT :: string where
  \<open>MSG_RATE_LIMIT = ''The lab is busy. WHY: Rate limit exceeded. REMEDY: Please wait 60 seconds before submitting the next negative for development.''\<close>

definition MSG_GENERIC :: string where
  \<open>MSG_GENERIC = ''A technical chemical imbalance occurred in the lab. Please check your connection and try again.''\<close>

text \<open>\<open>candidate.content?.parts || []\<close>\<close>

definition parts_of :: "Candidate \<Rightarrow> Part list" where
  "parts_of candidate =
     (case content candidate of
        None \<Rightarrow> []
      | Some c \<Rightarrow> (case parts c of None \<Rightarrow> [] | Some ps \<Rightarrow> ps))"

text \<open>
  The \<open>for\<close> loop over the parts, with \<open>refusalText\<close> as accumulator: \<open>Inr\<close> is the
  \<open>return\<close> from inside the loop, \<open>Inl\<close> the accumulated text when the loop runs out.
\<close>

fun scan_parts :: "Part list \<Rightarrow> string \<Rightarrow> string + string" where
  "scan_parts [] refusalText = Inl refusalText"
| "scan_parts (part # rest) refusalText =
     (case inlineData part of
        Some blob \<Rightarrow> Inr (''data:image/png;base64,'' @ data blob)
      | None \<Rightarrow>
          (case text' part of
             None \<Rightarrow> scan_parts rest refusalText
           | Some t \<Rightarrow>
               if t \<noteq> [] then scan_parts rest (refusalText @ t @ '' '')
               else scan_parts rest refusalText))"

text \<open>The body of the \<open>try\<close> block after the awaited response has arrived.\<close>

definition processImage_try :: "GenerateContentResponse \<Rightarrow> JsError + string" where
  "processImage_try response =
     (case candidates response of
        None \<Rightarrow> Inl (new_Error MSG_NO_CANDIDATES)
      | Some [] \<Rightarrow> Inl (new_Error MSG_NO_CANDIDATES)
      | Some (candidate # _) \<Rightarrow>
          if finishReason candidate = Some ''SAFETY'' then Inl (new_Error MSG_SAFETY)
          else if finishReason candidate = Some ''RECITATION'' then Inl (new_Error MSG_RECITATION)
          else if finishReason candidate = Some ''OTHER'' then Inl (new_Error MSG_OTHER)
          else
            (case scan_parts (parts_of candidate) [] of
               Inr url \<Rightarrow> Inr url
             | Inl refusalText \<Rightarrow>
                 if trim refusalText \<noteq> [] then Inl (new_Error (MSG_REFUSAL (trim refusalText)))
                 else Inl (new_Error MSG_NO_IMAGE)))"

text \<open>The \<open>catch\<close> handler: the value it throws for the error it caught.\<close>

definition processImage_catch :: "JsError \<Rightarrow> JsError" where
  "processImage_catch error =
     (if truthy (err_message error) \<and> startsWith (or_else (err_message error) []) ''REJECTION:''
      then error
      else
        let errorMessage = or_else (err_message error) [] in
        if includes' errorMessage ''403'' \<or> err_status error = Number 403
          then new_Error MSG_PERMISSION_DENIED
        else if includes' errorMessage ''Requested entity was not found.''
          then new_Error MSG_KEY_RESET
        else if includes' errorMessage ''429''
          then new_Error MSG_RATE_LIMIT
        else new_Error (if errorMessage \<noteq> [] then errorMessage else MSG_GENERIC))"

text \<open>
  \<open>processImage\<close>, given what \<open>await ai.models.generateContent(...)\<close> did: it threw
  (\<open>Inl\<close>) or delivered a response (\<open>Inr\<close>). The request (image data, MIME type, prompt,
  size, aspect ratio) reaches only the external service, whose answer is this argument.
\<close>

definition processImage :: "JsError + GenerateContentResponse \<Rightarrow> JsError + string" where
  "processImage generated =
     (case (case generated of Inl thrown \<Rightarrow> Inl thrown | Inr response \<Rightarrow> processImage_try response) of
        Inl error \<Rightarrow> Inl (processImage_catch error)
      | Inr url \<Rightarrow> Inr url)"


section \<open>Double-precision arithmetic\<close>

text \<open>
  JavaScript numbers are IEEE 754 doubles. A finite double is a rational; \<open>fl\<close> rounds a
  rational to the nearest double (53 significant bits, ties to the even significand). The
  quantities of \<open>calculateClosestAspectRatio\<close> stay in the normal range for pixel
  dimensions, so exponent limits are left out.
\<close>

fun bit_length :: "nat \<Rightarrow> nat" where
  "bit_length n = (if n = 0 then 0 else Suc (bit_length (n div 2)))"

definition pow2 :: "int \<Rightarrow> rat" where
  "pow2 e = (if 0 \<le> e then 2 ^ nat e else 1 / 2 ^ nat (- e))"

text \<open>For \<open>0 < q\<close>, the exponent \<open>e\<close> with \<open>2^e \<le> q < 2^(e+1)\<close>.\<close>

definition binade :: "rat \<Rightarrow> int" where
  "binade q =
     (if 1 \<le> q then int (bit_length (nat \<lfloor>q\<rfloor>)) - 1
      else - int (bit_length (nat (\<lceil>1 / q\<rceil> - 1))))"

definition round_half_even :: "rat \<Rightarrow> int" where
  "round_half_even m =
     (let f = \<lfloor>m\<rfloor>; r = m - of_int f in
      if r < 1 / 2 then f
      else if 1 / 2 < r then f + 1
      else if even f then f else f + 1)"

definition fl :: "rat \<Rightarrow> rat" where
  "fl q =
     (if q = 0 then 0
      else
        let ulp = pow2 (binade \<bar>q\<bar> - 52)
        in sgn q * of_int (round_half_even (\<bar>q\<bar> / ulp)) * ulp)"

text \<open>The operators \<open>/\<close> and \<open>-\<close> on doubles (divisor not zero).\<close>

definition js_div :: "rat \<Rightarrow> rat \<Rightarrow> rat" where
  "js_div a b = fl (a / b)"

definition js_sub :: "rat \<Rightarrow> rat \<Rightarrow> rat" where
  "js_sub a b = fl (a - b)"

section \<open>Aspect-ratio detection\<close>

text \<open>The callback of \<open>reduce\<close>: the current entry replaces \<open>prev\<close> only when strictly closer.\<close>

definition closer :: "rat \<Rightarrow> rat \<times> AspectRatio \<Rightarrow> rat \<times> AspectRatio \<Rightarrow> rat \<times> AspectRatio" where
  "closer ratio prev current =
     (if \<bar>js_sub (fst current) ratio\<bar> < \<bar>js_sub (fst prev) ratio\<bar> then current else prev)"

text \<open>
  \<open>reduce\<close> without an initial value starts from the first element of the array. With
  \<open>height = 0\<close> the quotient is \<open>Infinity\<close> or \<open>NaN\<close>, every comparison of the callback is
  false and the first entry stays.
\<close>

definition calculateClosestAspectRatio :: "nat \<Rightarrow> nat \<Rightarrow> AspectRatio" where
  "calculateClosestAspectRatio width height =
     (if height = 0 then R1_1
      else
        let ratio = js_div (of_nat width) (of_nat height)
        in snd (foldl (closer ratio) (1, R1_1)
                 [(js_div 3 4, R3_4), (js_div 4 3, R4_3), (js_div 9 16, R9_16), (js_div 16 9, R16_9)]))"


text \<open>The \<open>ratio\<close> field of the array entry with a given \<open>value\<close>, and its position.\<close>

fun ratio_value :: "AspectRatio \<Rightarrow> rat" where
  "ratio_value R1_1 = 1"
| "ratio_value R3_4 = js_div 3 4"
| "ratio_value R4_3 = js_div 4 3"
| "ratio_value R9_16 = js_div 9 16"
| "ratio_value R16_9 = js_div 16 9"

fun ratio_index :: "AspectRatio \<Rightarrow> nat" where
  "ratio_index R1_1 = 0"
| "ratio_index R3_4 = 1"
| "ratio_index R4_3 = 2"
| "ratio_index R9_16 = 3"
| "ratio_index R16_9 = 4"

text \<open>The exact fractions the five names stand for.\<close>

fun ratio_exact :: "AspectRatio \<Rightarrow> rat" where
  "ratio_exact R1_1 = 1"
| "ratio_exact R3_4 = 3 / 4"
| "ratio_exact R4_3 = 4 / 3"
| "ratio_exact R9_16 = 9 / 16"
| "ratio_exact R16_9 = 16 / 9"

section \<open>The history table\<close>

text \<open>
  Modelled from the spec: \<open>services/dbService\<close> (\<open>getHistory\<close>, \<open>saveHistoryItem\<close>,
  \<open>deleteHistoryItemFromDB\<close>) is not among the sources. The spec describes an append-ordered
  local table of records supporting insert, list-all and delete-by-id; the table is the
  field \<open>table\<close> of the state.
\<close>

definition saveHistoryItem :: "ProcessedImage \<Rightarrow> ProcessedImage list \<Rightarrow> ProcessedImage list" where
  "saveHistoryItem item t = t @ [item]"

definition deleteHistoryItemFromDB :: "string \<Rightarrow> ProcessedImage list \<Rightarrow> ProcessedImage list" where
  "deleteHistoryItemFromDB ident t = filter (\<lambda>item. p_id item \<noteq> ident) t"

definition getHistory :: "ProcessedImage list \<Rightarrow> ProcessedImage list" where
  "getHistory t = t"

section \<open>Event handlers of \<open>App\<close>\<close>

definition idle :: ProcessingState where
  "idle = \<lparr>status = Idle, message = None\<rparr>"

fun filmStock_name :: "FilmStock \<Rightarrow> string" where
  "filmStock_name KodakPortra400 = ''Kodak Portra 400''"
| "filmStock_name KodakGold200 = ''Kodak Gold 200''"
| "filmStock_name KodakEktachromeE100 = ''Kodak Ektachrome E100''"
| "filmStock_name KodakTriX400BW = ''Kodak Tri-X 400 (B&W)''"
| "filmStock_name FujifilmVelvia50 = ''Fujifilm Velvia 50''"
| "filmStock_name FujifilmProvia100F = ''Fujifilm Provia 100F''"
| "filmStock_name FujifilmPro400H = ''Fujifilm Pro 400H''"
| "filmStock_name IlfordHP5PlusBW = ''Ilford HP5 Plus (B&W)''"
| "filmStock_name Cinestill800T = ''Cinestill 800T''"

text \<open>The initial values of the hooks; the two stores are whatever the browser holds.\<close>

definition initial_state :: "string option \<Rightarrow> ProcessedImage list \<Rightarrow> AppState" where
  "initial_state flag stored =
     \<lparr>originalBase64 = None, processedUrl = None, processingState = idle,
      imageSize = Size1K, aspectRatio = R1_1, filmStock = KodakPortra400, iso = ISO400,
      skinDetail = 50, history = [], compareMode = False, zoomScale = 1,
      isKeyReady = False, showKeyModal = False, sessionFlag = flag, table = stored\<rparr>"

text \<open>
  \<open>loadHistory\<close>, given how \<open>getHistory()\<close> settled (\<open>Some\<close> error: rejected, the
  \<open>catch\<close> only logs).
\<close>

definition loadHistory :: "JsError option \<Rightarrow> AppState \<Rightarrow> AppState" where
  "loadHistory settled s =
     (case settled of
        Some _ \<Rightarrow> s
      | None \<Rightarrow> s\<lparr>history := map (\<lambda>item. item\<lparr>p_selected := Some False\<rparr>) (getHistory (table s))\<rparr>)"

text \<open>\<open>img.onload\<close> inside \<open>handleFileUpload\<close>, for the data URL and the pixel size read.\<close>

definition handleFileUpload :: "string \<Rightarrow> nat \<Rightarrow> nat \<Rightarrow> AppState \<Rightarrow> AppState" where
  "handleFileUpload result width height s =
     s\<lparr>aspectRatio := calculateClosestAspectRatio width height,
       originalBase64 := Some result,
       processedUrl := None,
       processingState := idle,
       zoomScale := 1\<rparr>"

text \<open>\<open>handleKeyActivation\<close> once \<open>openSelectKey()\<close> has resolved.\<close>

definition handleKeyActivation :: "AppState \<Rightarrow> AppState" where
  "handleKeyActivation s = s\<lparr>sessionFlag := Some ''true'', isKeyReady := True, showKeyModal := False\<rparr>"

text \<open>The \<open>disabled\<close> attribute of the submit button.\<close>

definition submit_disabled :: "AppState \<Rightarrow> bool" where
  "submit_disabled s = (\<not> truthy (originalBase64 s) \<or> status (processingState s) \<noteq> Idle)"

text \<open>
  \<open>startProcessing\<close> is an \<open>async\<close> function with three \<open>await\<close>s; each stretch between
  them is one function. A stretch reads the hooks through the closure of the render in
  which the handler was created (\<open>closure\<close>) and writes through the setters to the state
  current at that moment (\<open>s\<close>).

  First stretch, up to \<open>await window.aistudio.hasSelectedApiKey()\<close>: the result carries
  \<open>Some\<close> of the (non-empty) \<open>originalBase64\<close> when the function got that far.
\<close>

definition startProcessing_begin :: "AppState \<Rightarrow> AppState \<times> string option" where
  "startProcessing_begin s =
     (case originalBase64 s of
        None \<Rightarrow> (s, None)
      | Some orig \<Rightarrow>
          if orig = [] then (s, None)
          else if sessionFlag s \<noteq> Some ''true'' then (s\<lparr>showKeyModal := True\<rparr>, None)
          else (s\<lparr>processingState :=
                   \<lparr>status = CheckingKey, message = Some ''Verifying Emulsion Engine...''\<rparr>\<rparr>,
                Some orig))"

text \<open>
  Second stretch, from the answer \<open>hasKey\<close> up to \<open>await processImage(...)\<close>: the flag
  tells whether \<open>processImage\<close> was called.
\<close>

definition startProcessing_afterKey :: "AppState \<Rightarrow> bool \<Rightarrow> AppState \<Rightarrow> AppState \<times> bool" where
  "startProcessing_afterKey closure hasKey s =
     (if \<not> hasKey then (s\<lparr>showKeyModal := True, processingState := idle\<rparr>, False)
      else (s\<lparr>processingState :=
               \<lparr>status = Processing,
                message = Some (''Developing as '' @ filmStock_name (filmStock closure)
                  @ '' at ISO '' @ toString (iso_number (iso closure)) @ ''...'')\<rparr>\<rparr>,
            True))"

text \<open>The \<open>catch\<close> block of \<open>startProcessing\<close>.\<close>

definition startProcessing_catch :: "JsError \<Rightarrow> AppState \<Rightarrow> AppState" where
  "startProcessing_catch err s =
     (if err_message err = Some ''KEY_RESET_REQUIRED''
      then s\<lparr>sessionFlag := None, showKeyModal := True, processingState := idle\<rparr>
      else s\<lparr>processingState :=
               \<lparr>status = Error,
                message = Some (or_else (err_message err) ''Chemical imbalance detected.'')\<rparr>\<rparr>)"

text \<open>
  Third stretch, from the settled \<open>processImage\<close> (\<open>Inl\<close>: it threw) up to
  \<open>await saveHistoryItem(newEntry)\<close>; \<open>now1\<close> and \<open>now2\<close> are the two readings of
  \<open>Date.now()\<close>. The result carries the new entry when the save was started.
\<close>

definition startProcessing_afterProcess ::
  "string \<Rightarrow> AppState \<Rightarrow> JsError + string \<Rightarrow> nat \<Rightarrow> nat \<Rightarrow> AppState \<Rightarrow> AppState \<times> ProcessedImage option" where
  "startProcessing_afterProcess orig closure settled now1 now2 s =
     (case settled of
        Inl err \<Rightarrow> (startProcessing_catch err s, None)
      | Inr resultUrl \<Rightarrow>
          let newEntry =
            \<lparr>p_id = toString now1,
             p_originalUrl = orig,
             p_processedUrl = resultUrl,
             p_timestamp = now2,
             p_prompt = buildFinalPrompt closure,
             p_size = imageSize closure,
             p_aspectRatio = aspectRatio closure,
             p_filmStock = filmStock closure,
             p_iso = iso closure,
             p_skinDetail = skinDetail closure,
             p_selected = Some False\<rparr>
          in (s\<lparr>processedUrl := Some resultUrl\<rparr>, Some newEntry))"

text \<open>Last stretch, from the settled \<open>saveHistoryItem\<close> (\<open>Some\<close> error: rejected).\<close>

definition startProcessing_afterSave :: "ProcessedImage \<Rightarrow> JsError option \<Rightarrow> AppState \<Rightarrow> AppState" where
  "startProcessing_afterSave newEntry settled s =
     (case settled of
        Some err \<Rightarrow> startProcessing_catch err s
      | None \<Rightarrow>
          s\<lparr>table := saveHistoryItem newEntry (table s),
            history := newEntry # history s,
            processingState := idle,
            zoomScale := 1,
            isKeyReady := True\<rparr>)"

text \<open>
  What the surroundings answer during one run: the key check, the generation request, the
  clock and the save.
\<close>

record Env =
  hasSelectedApiKey :: bool
  generateContent :: "JsError + GenerateContentResponse"
  dateNow1 :: nat
  dateNow2 :: nat
  saveSettled :: "JsError option"

text \<open>One run of \<open>startProcessing\<close> from start to end, no other handler in between.\<close>

definition startProcessing :: "Env \<Rightarrow> AppState \<Rightarrow> AppState" where
  "startProcessing env s =
     (case startProcessing_begin s of
        (s1, None) \<Rightarrow> s1
      | (s1, Some orig) \<Rightarrow>
          (case startProcessing_afterKey s (hasSelectedApiKey env) s1 of
             (s2, False) \<Rightarrow> s2
           | (s2, True) \<Rightarrow>
               (case startProcessing_afterProcess orig s (processImage (generateContent env))
                       (dateNow1 env) (dateNow2 env) s2 of
                  (s3, None) \<Rightarrow> s3
                | (s3, Some newEntry) \<Rightarrow> startProcessing_afterSave newEntry (saveSettled env) s3)))"

definition toggleSelection :: "string \<Rightarrow> AppState \<Rightarrow> AppState" where
  "toggleSelection ident s =
     s\<lparr>history :=
         map (\<lambda>item. if p_id item = ident
                      then item\<lparr>p_selected := Some (p_selected item \<noteq> Some True)\<rparr>
                      else item)
             (history s)\<rparr>"

text \<open>
  \<open>deleteHistoryItem\<close>, given how \<open>deleteHistoryItemFromDB(id)\<close> settled: when it rejects,
  the handler ends at the \<open>await\<close>.
\<close>

definition deleteHistoryItem :: "string \<Rightarrow> JsError option \<Rightarrow> AppState \<Rightarrow> AppState" where
  "deleteHistoryItem ident settled s =
     (case settled of
        Some _ \<Rightarrow> s
      | None \<Rightarrow>
          s\<lparr>table := deleteHistoryItemFromDB ident (table s),
            history := filter (\<lambda>item. p_id item \<noteq> ident) (history s)\<rparr>)"

section \<open>The interface as a transition system\<close>

text \<open>
  The page together with the suspended runs of \<open>startProcessing\<close>: those waiting for the
  key check, those waiting for \<open>processImage\<close> (each is one outstanding call) and those
  waiting for the save. A suspended run keeps its \<open>originalBase64\<close> and its closure.
\<close>

record World =
  app :: AppState
  awaitingKey :: "(string \<times> AppState) list"
  awaitingProcess :: "(string \<times> AppState) list"
  awaitingSave :: "ProcessedImage list"

datatype Event =
    KeyActivated
  | FileLoaded string nat nat
  | ClickStart
  | KeySettled nat bool
  | ProcessSettled nat "JsError + GenerateContentResponse" nat nat
  | SaveSettled nat "JsError option"
  | ClickRestart

definition remove_nth :: "nat \<Rightarrow> 'a list \<Rightarrow> 'a list" where
  "remove_nth k xs = take k xs @ drop (Suc k) xs"

text \<open>
  One event. A click on the disabled submit button does nothing; the "Restart Lab" button
  exists only on the error panel; a settlement refers to a suspended run by its position.
\<close>

fun step :: "Event \<Rightarrow> World \<Rightarrow> World" where
  "step KeyActivated w = w\<lparr>app := handleKeyActivation (app w)\<rparr>"
| "step (FileLoaded result width height) w = w\<lparr>app := handleFileUpload result width height (app w)\<rparr>"
| "step ClickStart w =
     (if submit_disabled (app w) then w
      else
        (case startProcessing_begin (app w) of
           (s1, None) \<Rightarrow> w\<lparr>app := s1\<rparr>
         | (s1, Some orig) \<Rightarrow> w\<lparr>app := s1, awaitingKey := awaitingKey w @ [(orig, app w)]\<rparr>))"
| "step (KeySettled k hasKey) w =
     (if length (awaitingKey w) \<le> k then w
      else
        (case awaitingKey w ! k of (orig, closure) \<Rightarrow>
           (case startProcessing_afterKey closure hasKey (app w) of
              (s1, called) \<Rightarrow>
                w\<lparr>app := s1,
                  awaitingKey := remove_nth k (awaitingKey w),
                  awaitingProcess :=
                    (if called then awaitingProcess w @ [(orig, closure)] else awaitingProcess w)\<rparr>)))"
| "step (ProcessSettled k generated now1 now2) w =
     (if length (awaitingProcess w) \<le> k then w
      else
        (case awaitingProcess w ! k of (orig, closure) \<Rightarrow>
           (case startProcessing_afterProcess orig closure (processImage generated) now1 now2 (app w) of
              (s1, saving) \<Rightarrow>
                w\<lparr>app := s1,
                  awaitingProcess := remove_nth k (awaitingProcess w),
                  awaitingSave :=
                    (case saving of None \<Rightarrow> awaitingSave w | Some newEntry \<Rightarrow> awaitingSave w @ [newEntry])\<rparr>)))"
| "step (SaveSettled k settled) w =
     (if length (awaitingSave w) \<le> k then w
      else
        w\<lparr>app := startProcessing_afterSave (awaitingSave w ! k) settled (app w),
          awaitingSave := remove_nth k (awaitingSave w)\<rparr>)"
| "step ClickRestart w =
     (if \<not> compareMode (app w)
         \<and> \<not> (truthy (processedUrl (app w)) \<and> truthy (originalBase64 (app w)))
         \<and> status (processingState (app w)) = Error
      then w\<lparr>app := (app w)\<lparr>processingState := idle\<rparr>\<rparr>
      else w)"

definition run :: "Event list \<Rightarrow> World \<Rightarrow> World" where
  "run events w = foldl (\<lambda>w' e. step e w') w events"

definition initial_world :: "string option \<Rightarrow> ProcessedImage list \<Rightarrow> World" where
  "initial_world flag stored =
     \<lparr>app = initial_state flag stored, awaitingKey = [], awaitingProcess = [], awaitingSave = []\<rparr>"

section \<open>Reading a response as the specification words it\<close>

text \<open>
  The data of the first part that carries \<open>inlineData\<close>, and the text the parts carry:
  each non-empty \<open>text\<close> followed by one space, in order.
\<close>

definition first_image :: "Part list \<Rightarrow> Blob option" where
  "first_image ps =
     (case filter (\<lambda>p. inlineData p \<noteq> None) ps of [] \<Rightarrow> None | p # _ \<Rightarrow> inlineData p)"

definition accumulated_text :: "Part list \<Rightarrow> string" where
  "accumulated_text ps =
     concat (map (\<lambda>t. t @ '' '') (filter (\<lambda>t. t \<noteq> []) (List.map_filter text' ps)))"


section \<open>Sample values\<close>

text \<open>Concrete records, states and answers on which the properties below are evaluated.\<close>

definition sample_entry :: "string \<Rightarrow> bool option \<Rightarrow> ProcessedImage" where
  "sample_entry ident sel =
     \<lparr>p_id = ident, p_originalUrl = ''data:image/png;base64,QUJD'',
      p_processedUrl = ''data:image/png;base64,REVG'', p_timestamp = 1700000000000,
      p_prompt = ''A portrait'', p_size = Size1K, p_aspectRatio = R1_1,
      p_filmStock = KodakPortra400, p_iso = ISO400, p_skinDetail = 50, p_selected = sel\<rparr>"

definition sample_state :: AppState where
  "sample_state =
     (initial_state (Some ''true'') [sample_entry ''1'' None])
       \<lparr>originalBase64 := Some ''data:image/png;base64,QUJD'',
        history := [sample_entry ''1'' (Some False)]\<rparr>"

definition sample_env :: "JsError + GenerateContentResponse \<Rightarrow> Env" where
  "sample_env generated =
     \<lparr>hasSelectedApiKey = True, generateContent = generated,
      dateNow1 = 1700000000123, dateNow2 = 1700000000124, saveSettled = None\<rparr>"

definition sample_response :: GenerateContentResponse where
  "sample_response =
     \<lparr>candidates = Some [\<lparr>finishReason = Some ''STOP'', content = Some \<lparr>parts = Some
        [\<lparr>inlineData = Some \<lparr>data = ''REVG'', mimeType = ''image/png''\<rparr>, text' = None\<rparr>]\<rparr>\<rparr>]\<rparr>"

section \<open>Strings\<close>

lemma startsWith_prefix: "startsWith s t = prefix t s"
  unfolding startsWith_def prefix_def
  by (metis append_eq_conv_conj append_take_drop_id)

lemma includes_sublist: "includes' s t = sublist t s"
  by (induction s) (auto simp: startsWith_prefix sublist_Cons_right)

section \<open>The response loop\<close>

lemma first_image_Nil: "first_image [] = None"
  by (simp add: first_image_def)

lemma first_image_Cons:
  "first_image (p # ps) = (case inlineData p of Some b \<Rightarrow> Some b | None \<Rightarrow> first_image ps)"
  by (simp add: first_image_def split: option.splits)

lemma first_image_None: "first_image ps = None \<longleftrightarrow> (\<forall>p \<in> set ps. inlineData p = None)"
  by (induction ps) (simp_all add: first_image_Nil first_image_Cons split: option.splits)

lemma first_image_Some: "first_image ps \<noteq> None \<longleftrightarrow> (\<exists>p \<in> set ps. inlineData p \<noteq> None)"
  by (simp add: first_image_None)

lemma accumulated_text_Nil: "accumulated_text [] = []"
  by (simp add: accumulated_text_def List.map_filter_simps)

lemma accumulated_text_Cons:
  "accumulated_text (p # ps) =
     (case text' p of None \<Rightarrow> accumulated_text ps
      | Some t \<Rightarrow> if t \<noteq> [] then t @ '' '' @ accumulated_text ps else accumulated_text ps)"
  by (simp add: accumulated_text_def List.map_filter_simps split: option.splits)

lemma scan_parts_spec:
  "scan_parts ps acc =
     (case first_image ps of
        Some blob \<Rightarrow> Inr (''data:image/png;base64,'' @ data blob)
      | None \<Rightarrow> Inl (acc @ accumulated_text ps))"
  by (induction ps arbitrary: acc)
     (simp_all add: first_image_Nil first_image_Cons accumulated_text_Nil accumulated_text_Cons
        split: option.splits)

section \<open>Errors of the service call\<close>

lemma rejection_passes:
  "startsWith m ''REJECTION:'' \<Longrightarrow> processImage_catch (new_Error m) = new_Error m"
  by (auto simp: processImage_catch_def new_Error_def startsWith_def)

lemma msgs_rejection:
  "startsWith MSG_NO_CANDIDATES ''REJECTION:''"
  "startsWith MSG_SAFETY ''REJECTION:''"
  "startsWith MSG_RECITATION ''REJECTION:''"
  "startsWith MSG_OTHER ''REJECTION:''"
  "startsWith (MSG_REFUSAL w) ''REJECTION:''"
  "startsWith MSG_NO_IMAGE ''REJECTION:''"
  by (simp_all add: startsWith_def MSG_NO_CANDIDATES_def MSG_SAFETY_def MSG_RECITATION_def
        MSG_OTHER_def MSG_REFUSAL_def MSG_NO_IMAGE_def)

lemma msgs_nonempty:
  "MSG_PERMISSION_DENIED \<noteq> []" "MSG_KEY_RESET \<noteq> []" "MSG_RATE_LIMIT \<noteq> []" "MSG_GENERIC \<noteq> []"
  by (simp_all add: MSG_PERMISSION_DENIED_def MSG_KEY_RESET_def MSG_RATE_LIMIT_def MSG_GENERIC_def)

lemma catch_message_nonempty:
  "\<exists>m. err_message (processImage_catch e) = Some m \<and> m \<noteq> []"
  by (cases "err_message e")
     (auto simp: processImage_catch_def new_Error_def Let_def msgs_nonempty)

lemma processImage_error_nonempty:
  "processImage g = Inl err \<Longrightarrow> \<exists>m. err_message err = Some m \<and> m \<noteq> []"
  using catch_message_nonempty by (auto simp: processImage_def split: sum.splits)

lemma try_outcome:
  "processImage_try resp =
     (case candidates resp of
        None \<Rightarrow> Inl (new_Error MSG_NO_CANDIDATES)
      | Some [] \<Rightarrow> Inl (new_Error MSG_NO_CANDIDATES)
      | Some (c # cs) \<Rightarrow>
          if finishReason c = Some ''SAFETY'' then Inl (new_Error MSG_SAFETY)
          else if finishReason c = Some ''RECITATION'' then Inl (new_Error MSG_RECITATION)
          else if finishReason c = Some ''OTHER'' then Inl (new_Error MSG_OTHER)
          else
            (case first_image (parts_of c) of
               Some blob \<Rightarrow> Inr (''data:image/png;base64,'' @ data blob)
             | None \<Rightarrow>
                 if trim (accumulated_text (parts_of c)) \<noteq> []
                 then Inl (new_Error (MSG_REFUSAL (trim (accumulated_text (parts_of c)))))
                 else Inl (new_Error MSG_NO_IMAGE)))"
  by (simp add: processImage_try_def scan_parts_spec split: option.splits list.splits)

lemma try_error_rejection:
  "processImage_try resp = Inl err \<Longrightarrow> \<exists>m. err = new_Error m \<and>  startsWith m ''REJECTION:''"
  unfolding try_outcome
  by (auto simp: msgs_rejection split: option.splits list.splits if_splits)

lemma processImage_Inr: "processImage (Inr resp) = processImage_try resp"
proof (cases "processImage_try resp")
  case (Inl err)
  then obtain m where "err = new_Error m" "startsWith m ''REJECTION:''"
    using try_error_rejection by blast
  then show ?thesis using Inl by (simp add: processImage_def rejection_passes)
next
  case (Inr url)
  then show ?thesis by (simp add: processImage_def)
qed


lemma try_Inr_iff:
  "(\<exists>url. processImage_try resp = Inr url) \<longleftrightarrow>
      (\<exists>c cs. candidates resp = Some (c # cs)
         \<and> finishReason c \<noteq> Some ''SAFETY''
         \<and> finishReason c \<noteq> Some ''RECITATION''
         \<and> finishReason c \<noteq> Some ''OTHER''
         \<and> first_image (parts_of c) \<noteq> None)"
proof (cases "candidates resp")
  case None
  then show ?thesis by (simp add: try_outcome)
next
  case (Some cands)
  show ?thesis
  proof (cases cands)
    case Nil
    with Some show ?thesis by (simp add: try_outcome)
  next
    case (Cons c cs)
    with Some show ?thesis
      by (cases "first_image (parts_of c)") (simp_all add: try_outcome)
  qed
qed

section \<open>Outcome of the service call\<close>

text \<open>
  Claim C1, as the code has it. For every response, \<open>processImage\<close> resolves exactly when
  the response has a candidate, the first candidate's \<open>finishReason\<close> is none of
  \<open>SAFETY\<close>, \<open>RECITATION\<close>, \<open>OTHER\<close>, and some part of it carries \<open>inlineData\<close>; the
  result is \<open>data:image/png;base64,\<close> followed by the data of the first such part.
  Otherwise it throws an error whose message starts with \<open>REJECTION:\<close>: the safety-filter
  messages for no candidates and for \<open>SAFETY\<close>, the copyright message for \<open>RECITATION\<close>,
  the unspecified message for \<open>OTHER\<close>, and, with no image part, the no-image message,
  which carries the accumulated text as explanation when that text, trimmed, is not empty
  and is the fixed fallback otherwise.
\<close>

theorem processImage_response_outcome:
  "((\<exists>url. processImage (Inr resp) = Inr url) \<longleftrightarrow>
      (\<exists>c cs. candidates resp = Some (c # cs)
         \<and> finishReason c \<noteq> Some ''SAFETY''
         \<and> finishReason c \<noteq> Some ''RECITATION''
         \<and> finishReason c \<noteq> Some ''OTHER''
         \<and> (\<exists>p \<in> set (parts_of c). inlineData p \<noteq> None)))
   \<and> processImage (Inr resp) =
       (case candidates resp of
          None \<Rightarrow> Inl (new_Error MSG_NO_CANDIDATES)
        | Some [] \<Rightarrow> Inl (new_Error MSG_NO_CANDIDATES)
        | Some (c # cs) \<Rightarrow>
            if finishReason c = Some ''SAFETY'' then Inl (new_Error MSG_SAFETY)
            else if finishReason c = Some ''RECITATION'' then Inl (new_Error MSG_RECITATION)
            else if finishReason c = Some ''OTHER'' then Inl (new_Error MSG_OTHER)
            else
              (case first_image (parts_of c) of
                 Some blob \<Rightarrow> Inr (''data:image/png;base64,'' @ data blob)
               | None \<Rightarrow>
                   if trim (accumulated_text (parts_of c)) \<noteq> []
                   then Inl (new_Error (MSG_REFUSAL (trim (accumulated_text (parts_of c)))))
                   else Inl (new_Error MSG_NO_IMAGE)))
   \<and> (\<forall>err. processImage (Inr resp) = Inl err \<longrightarrow>
         (\<exists>m. err_message err = Some m \<and> prefix ''REJECTION:'' m))"
proof (intro conjI)
  show "(\<exists>url. processImage (Inr resp) = Inr url) \<longleftrightarrow>
      (\<exists>c cs. candidates resp = Some (c # cs)
         \<and> finishReason c \<noteq> Some ''SAFETY''
         \<and> finishReason c \<noteq> Some ''RECITATION''
         \<and> finishReason c \<noteq> Some ''OTHER''
         \<and> (\<exists>p \<in> set (parts_of c). inlineData p \<noteq> None))"
    unfolding processImage_Inr try_Inr_iff first_image_Some ..
next
  show "processImage (Inr resp) =
       (case candidates resp of
          None \<Rightarrow> Inl (new_Error MSG_NO_CANDIDATES)
        | Some [] \<Rightarrow> Inl (new_Error MSG_NO_CANDIDATES)
        | Some (c # cs) \<Rightarrow>
            if finishReason c = Some ''SAFETY'' then Inl (new_Error MSG_SAFETY)
            else if finishReason c = Some ''RECITATION'' then Inl (new_Error MSG_RECITATION)
            else if finishReason c = Some ''OTHER'' then Inl (new_Error MSG_OTHER)
            else
              (case first_image (parts_of c) of
                 Some blob \<Rightarrow> Inr (''data:image/png;base64,'' @ data blob)
               | None \<Rightarrow>
                   if trim (accumulated_text (parts_of c)) \<noteq> []
                   then Inl (new_Error (MSG_REFUSAL (trim (accumulated_text (parts_of c)))))
                   else Inl (new_Error MSG_NO_IMAGE)))"
    unfolding processImage_Inr by (rule try_outcome)
next
  show "\<forall>err. processImage (Inr resp) = Inl err \<longrightarrow>
         (\<exists>m. err_message err = Some m \<and> prefix ''REJECTION:'' m)"
    unfolding processImage_Inr
    using try_error_rejection by (fastforce simp: new_Error_def startsWith_prefix)
qed



theorem processImage_response_outcome_witness:
  "processImage (Inr \<lparr>candidates = Some [\<lparr>finishReason = Some ''STOP'', content = Some \<lparr>parts = Some
       [\<lparr>inlineData = None, text' = Some ''Here it is.''\<rparr>,
        \<lparr>inlineData = Some \<lparr>data = ''QUJD'', mimeType = ''image/png''\<rparr>, text' = None\<rparr>]\<rparr>\<rparr>]\<rparr>)
     = Inr ''data:image/png;base64,QUJD''
   \<and> processImage (Inr \<lparr>candidates = Some [\<lparr>finishReason = Some ''STOP'', content = Some \<lparr>parts = Some
       [\<lparr>inlineData = None, text' = Some ''I cannot''\<rparr>,
        \<lparr>inlineData = None, text' = Some ''do this. ''\<rparr>]\<rparr>\<rparr>]\<rparr>)
     = Inl (new_Error (MSG_REFUSAL ''I cannot do this.''))
   \<and> processImage (Inr \<lparr>candidates = Some [\<lparr>finishReason = Some ''RECITATION'', content = None\<rparr>]\<rparr>)
     = Inl (new_Error MSG_RECITATION)"
  using processImage_response_outcome
      [of "\<lparr>candidates = Some [\<lparr>finishReason = Some ''STOP'', content = Some \<lparr>parts = Some
       [\<lparr>inlineData = None, text' = Some ''Here it is.''\<rparr>,
        \<lparr>inlineData = Some \<lparr>data = ''QUJD'', mimeType = ''image/png''\<rparr>, text' = None\<rparr>]\<rparr>\<rparr>]\<rparr>"]
    processImage_response_outcome
      [of "\<lparr>candidates = Some [\<lparr>finishReason = Some ''STOP'', content = Some \<lparr>parts = Some
       [\<lparr>inlineData = None, text' = Some ''I cannot''\<rparr>,
        \<lparr>inlineData = None, text' = Some ''do this. ''\<rparr>]\<rparr>\<rparr>]\<rparr>"]
    processImage_response_outcome
      [of "\<lparr>candidates = Some [\<lparr>finishReason = Some ''RECITATION'', content = None\<rparr>]\<rparr>"]
  by (simp add: parts_of_def first_image_def accumulated_text_def List.map_filter_simps trim_def isWhiteSpace_def)

text \<open>
  The explanation is not used whenever a text part is present: a single part whose text is
  one space yields the fixed fallback.
\<close>

theorem processImage_blank_text_counterexample:
  "truthy (text' \<lparr>inlineData = None, text' = Some '' ''\<rparr>)
   \<and> processImage (Inr \<lparr>candidates = Some [\<lparr>finishReason = Some ''STOP'', content = Some \<lparr>parts = Some
         [\<lparr>inlineData = None, text' = Some '' ''\<rparr>]\<rparr>\<rparr>]\<rparr>)
       = Inl (new_Error MSG_NO_IMAGE)
   \<and> new_Error MSG_NO_IMAGE \<noteq> new_Error (MSG_REFUSAL ''  '')
   \<and> new_Error MSG_NO_IMAGE \<noteq> new_Error (MSG_REFUSAL [])"
  by (simp add: processImage_def processImage_try_def processImage_catch_def parts_of_def trim_def
        isWhiteSpace_def new_Error_def startsWith_def MSG_NO_IMAGE_def MSG_REFUSAL_def)

text \<open>
  Claim C2. An error thrown by the request inside the \<open>try\<close> block whose message starts
  with \<open>REJECTION:\<close> is rethrown unchanged. Any other is classified: message containing
  \<open>403\<close> or status \<open>403\<close> gives the permission error; otherwise a message containing
  \<open>Requested entity was not found.\<close> gives \<open>KEY_RESET_REQUIRED\<close>; otherwise a message
  containing \<open>429\<close> gives the rate-limit message; otherwise the original message is
  rethrown, or the generic fallback when the message is empty or absent.
\<close>

theorem processImage_catch_classification:
  "processImage (Inl e) = Inl
     (let m = (case err_message e of None \<Rightarrow> [] | Some t \<Rightarrow> t) in
      if prefix ''REJECTION:'' m then e
      else if sublist ''403'' m \<or> err_status e = Number 403 then new_Error MSG_PERMISSION_DENIED
      else if sublist ''Requested entity was not found.'' m then new_Error MSG_KEY_RESET
      else if sublist ''429'' m then new_Error MSG_RATE_LIMIT
      else if m = [] then new_Error MSG_GENERIC
      else new_Error m)"
proof (cases "err_message e")
  case None
  then show ?thesis
    by (simp add: processImage_def processImage_catch_def Let_def includes_sublist startsWith_prefix)
next
  case (Some t)
  then show ?thesis
    by (cases "t = []")
       (simp_all add: processImage_def processImage_catch_def Let_def includes_sublist startsWith_prefix)
qed


theorem processImage_catch_classification_witness:
  "processImage (Inl \<lparr>err_message = Some ''got status 429 (also 403)'', err_status = Undefined\<rparr>)
     = Inl (new_Error MSG_PERMISSION_DENIED)
   \<and> processImage (Inl \<lparr>err_message = Some ''REJECTION: 403'', err_status = Number 403\<rparr>)
     = Inl \<lparr>err_message = Some ''REJECTION: 403'', err_status = Number 403\<rparr>
   \<and> processImage (Inl \<lparr>err_message = Some ''Requested entity was not found.'', err_status = Number 404\<rparr>)
     = Inl (new_Error MSG_KEY_RESET)
   \<and> processImage (Inl \<lparr>err_message = Some ''HTTP 429'', err_status = String ''403''\<rparr>)
     = Inl (new_Error MSG_RATE_LIMIT)
   \<and> processImage (Inl \<lparr>err_message = Some ''fetch failed'', err_status = Undefined\<rparr>)
     = Inl (new_Error ''fetch failed'')
   \<and> processImage (Inl \<lparr>err_message = None, err_status = Undefined\<rparr>)
     = Inl (new_Error MSG_GENERIC)"
  using processImage_catch_classification [of "\<lparr>err_message = Some ''got status 429 (also 403)'', err_status = Undefined\<rparr>"]
    processImage_catch_classification [of "\<lparr>err_message = Some ''REJECTION: 403'', err_status = Number 403\<rparr>"]
    processImage_catch_classification [of "\<lparr>err_message = Some ''Requested entity was not found.'', err_status = Number 404\<rparr>"]
    processImage_catch_classification [of "\<lparr>err_message = Some ''HTTP 429'', err_status = String ''403''\<rparr>"]
    processImage_catch_classification [of "\<lparr>err_message = Some ''fetch failed'', err_status = Undefined\<rparr>"]
    processImage_catch_classification [of "\<lparr>err_message = None, err_status = Undefined\<rparr>"]
  by (simp add: sublist_code prefix_code)

section \<open>The prompt\<close>

text \<open>
  Claim C3. The prompt is a function of three hooks only: two states that agree on
  \<open>skinDetail\<close>, \<open>filmStock\<close> and \<open>iso\<close> give the same prompt, whatever else differs
  (image, history, status, stores). The builder returns a value and changes nothing.
\<close>

theorem buildFinalPrompt_deterministic:
  "skinDetail s1 = skinDetail s2 \<Longrightarrow> filmStock s1 = filmStock s2 \<Longrightarrow> iso s1 = iso s2
     \<Longrightarrow> buildFinalPrompt s1 = buildFinalPrompt s2"
  by (simp add: buildFinalPrompt_def)

theorem buildFinalPrompt_deterministic_witness:
  "skinDetail (initial_state None []) = skinDetail ((initial_state (Some ''true'') [])
       \<lparr>originalBase64 := Some ''data:image/png;base64,QUJD'', imageSize := Size4K, zoomScale := 2\<rparr>)
   \<and> filmStock (initial_state None []) = filmStock ((initial_state (Some ''true'') [])
       \<lparr>originalBase64 := Some ''data:image/png;base64,QUJD'', imageSize := Size4K, zoomScale := 2\<rparr>)
   \<and> iso (initial_state None []) = iso ((initial_state (Some ''true'') [])
       \<lparr>originalBase64 := Some ''data:image/png;base64,QUJD'', imageSize := Size4K, zoomScale := 2\<rparr>)
   \<and> initial_state None [] \<noteq> (initial_state (Some ''true'') [])
       \<lparr>originalBase64 := Some ''data:image/png;base64,QUJD'', imageSize := Size4K, zoomScale := 2\<rparr>
   \<and> buildFinalPrompt (initial_state None []) = buildFinalPrompt ((initial_state (Some ''true'') [])
       \<lparr>originalBase64 := Some ''data:image/png;base64,QUJD'', imageSize := Size4K, zoomScale := 2\<rparr>)"
  using buildFinalPrompt_deterministic [of "initial_state None []" "(initial_state (Some ''true'') [])
       \<lparr>originalBase64 := Some ''data:image/png;base64,QUJD'', imageSize := Size4K, zoomScale := 2\<rparr>"]
  by (simp add: initial_state_def)

lemma toString_iso:
  "toString (iso_number i) = (case i of ISO200 \<Rightarrow> ''200'' | ISO400 \<Rightarrow> ''400'' | ISO800 \<Rightarrow> ''800'' | ISO1600 \<Rightarrow> ''1600'')"
  by (cases i) simp_all

text \<open>
  Claim C4. For every intensity from 0 to 100, film stock and ISO value the prompt is, joined
  by single spaces: the base sentence, whose skin clause is the balanced text from 30 to 70
  inclusive, the light-grain text below 30 and the high-fidelity text above 70; the
  characteristics text of the selected film stock; the grain sentence with the decimal ISO
  number.
\<close>

theorem buildFinalPrompt_composition:
  "0 \<le> skinDetail s \<Longrightarrow> skinDetail s \<le> 100 \<Longrightarrow>
   buildFinalPrompt s =
     (''A portrait with ''
        @ (if 30 \<le> skinDetail s \<and> skinDetail s \<le> 70 then skin_balanced
           else if skinDetail s < 30 then skin_light
           else skin_high)
        @ '', while maintaining consistent lighting, props, and set design.'')
     @ '' '' @ FILM_STOCK_CHARACTERISTICS (filmStock s) @ '' ''
     @ (''Add a substantial amount of organic film grain, resembling a ''
        @ (case iso s of ISO200 \<Rightarrow> ''200'' | ISO400 \<Rightarrow> ''400'' | ISO800 \<Rightarrow> ''800'' | ISO1600 \<Rightarrow> ''1600'')
        @ '' ISO film to the image, preserving the original aesthetic. The grain should feel raw and authentic.'')"
  by (simp add: buildFinalPrompt_def BASE_PROMPT_TEMPLATE_def toString_iso del: toString.simps)

theorem buildFinalPrompt_composition_witness:
  \<open>0 \<le> skinDetail ((initial_state None [])\<lparr>skinDetail := 30\<rparr>) \<and> skinDetail ((initial_state None [])\<lparr>skinDetail := 30\<rparr>) \<le> 100
   \<and> buildFinalPrompt ((initial_state None [])\<lparr>skinDetail := 30\<rparr>) =
       ''A portrait with Restore realistic skin texture with natural variation. Preserve the character's features while adding the subtle depth and organic feel of real skin, effectively bridging the gap between digital generation and authentic photography., while maintaining consistent lighting, props, and set design. Legendary skin tones. Warm, golden hues with a natural highlight roll-off. Ideal for portraits requiring a soft, organic feel. Add a substantial amount of organic film grain, resembling a 400 ISO film to the image, preserving the original aesthetic. The grain should feel raw and authentic.''
   \<and> 0 \<le> skinDetail ((initial_state None [])\<lparr>skinDetail := 75, filmStock := Cinestill800T, iso := ISO1600\<rparr>) \<and> skinDetail ((initial_state None [])\<lparr>skinDetail := 75, filmStock := Cinestill800T, iso := ISO1600\<rparr>) \<le> 100
   \<and> buildFinalPrompt ((initial_state None [])\<lparr>skinDetail := 75, filmStock := Cinestill800T, iso := ISO1600\<rparr>) =
       ''A portrait with Apply professional high-fidelity skin reconstruction. Focus on restoring intricate skin details like natural pore structure and fine organic textures. The result should feel raw and authentic, resembling an unretouched high-resolution film negative, while honoring the character's original features and avoiding any exaggerated blemishes., while maintaining consistent lighting, props, and set design. Cinematic tungsten-balanced film. Unique "red glow" halation around bright lights with a cool, moody night-time color shift. Add a substantial amount of organic film grain, resembling a 1600 ISO film to the image, preserving the original aesthetic. The grain should feel raw and authentic.''\<close>
  using buildFinalPrompt_composition [of "(initial_state None [])\<lparr>skinDetail := 30\<rparr>"]
    buildFinalPrompt_composition [of "(initial_state None [])\<lparr>skinDetail := 75, filmStock := Cinestill800T, iso := ISO1600\<rparr>"]
  by (simp add: initial_state_def skin_balanced_def skin_high_def)

section \<open>One run of \<open>startProcessing\<close>\<close>

text \<open>A run that gets as far as calling \<open>processImage\<close>.\<close>

lemma startProcessing_called:
  assumes "originalBase64 s = Some orig" "orig \<noteq> []" "sessionFlag s = Some ''true''"
    "hasSelectedApiKey env"
  shows "startProcessing env s =
     (case startProcessing_afterProcess orig s (processImage (generateContent env))
             (dateNow1 env) (dateNow2 env)
             (s\<lparr>processingState := \<lparr>status = Processing,
                  message = Some (''Developing as '' @ filmStock_name (filmStock s)
                    @ '' at ISO '' @ toString (iso_number (iso s)) @ ''...'')\<rparr>\<rparr>) of
        (s3, None) \<Rightarrow> s3
      | (s3, Some newEntry) \<Rightarrow> startProcessing_afterSave newEntry (saveSettled env) s3)"
  using assms
  by (simp add: startProcessing_def startProcessing_begin_def startProcessing_afterKey_def
        del: toString.simps)

lemma startProcessing_catch_frame:
  "history (startProcessing_catch err s) = history s"
  "table (startProcessing_catch err s) = table s"
  "processedUrl (startProcessing_catch err s) = processedUrl s"
  by (simp_all add: startProcessing_catch_def)

lemma sample_hyps:
  "originalBase64 sample_state = Some ''data:image/png;base64,QUJD''"
  "sessionFlag sample_state = Some ''true''"
  "hasSelectedApiKey (sample_env g)"
  "saveSettled (sample_env g) = None"
  "generateContent (sample_env g) = g"
  "dateNow1 (sample_env g) = 1700000000123"
  "history sample_state = [sample_entry ''1'' (Some False)]"
  "table sample_state = [sample_entry ''1'' None]"
  by (simp_all add: sample_state_def sample_env_def initial_state_def)

lemma sample_result: "processImage (Inr sample_response) = Inr ''data:image/png;base64,REVG''"
  by (simp add: sample_response_def processImage_def processImage_try_def parts_of_def)

section \<open>The history list\<close>

text \<open>
  Claim C5. A successful development (image loaded, session active, key present,
  \<open>processImage\<close> resolved, save resolved) puts the new record in front of the history
  list, with all previous records behind it unchanged and in order, and appends it to the
  table. Deleting by an identifier keeps exactly the records with another id, unchanged and
  in order, and leaves none with that id. Listing yields the records of the table in table
  order, each with \<open>selected\<close> set to false and nothing else changed.
\<close>

theorem history_insert_delete_list:
  "(\<forall>orig url. originalBase64 s = Some orig \<and> orig \<noteq> [] \<and> sessionFlag s = Some ''true''
        \<and> hasSelectedApiKey env \<and> processImage (generateContent env) = Inr url
        \<and> saveSettled env = None \<longrightarrow>
      (\<exists>e. history (startProcessing env s) = e # history s
         \<and> table (startProcessing env s) = table s @ [e]
         \<and> p_id e = toString (dateNow1 env) \<and> p_originalUrl e = orig \<and> p_processedUrl e = url))
   \<and> filter (\<lambda>item. p_id item \<noteq> ident) (history (deleteHistoryItem ident None s))
       = filter (\<lambda>item. p_id item \<noteq> ident) (history s)
   \<and> (\<forall>item \<in> set (history (deleteHistoryItem ident None s)). p_id item \<noteq> ident)
   \<and> subseq (history (deleteHistoryItem ident None s)) (history s)
   \<and> length (history (loadHistory None s)) = length (table s)
   \<and> (\<forall>k < length (table s). history (loadHistory None s) ! k = (table s ! k)\<lparr>p_selected := Some False\<rparr>)"
proof -
  have ins: "\<forall>orig url. originalBase64 s = Some orig \<and> orig \<noteq> [] \<and> sessionFlag s = Some ''true''
        \<and> hasSelectedApiKey env \<and> processImage (generateContent env) = Inr url
        \<and> saveSettled env = None \<longrightarrow>
      (\<exists>e. history (startProcessing env s) = e # history s
         \<and> table (startProcessing env s) = table s @ [e]
         \<and> p_id e = toString (dateNow1 env) \<and> p_originalUrl e = orig \<and> p_processedUrl e = url)"
    by (simp add: startProcessing_def startProcessing_begin_def startProcessing_afterKey_def
          startProcessing_afterProcess_def startProcessing_afterSave_def saveHistoryItem_def Let_def
          del: toString.simps)
  have del1: "filter (\<lambda>item. p_id item \<noteq> ident) (history (deleteHistoryItem ident None s))
       = filter (\<lambda>item. p_id item \<noteq> ident) (history s)"
    by (simp add: deleteHistoryItem_def)
  have del2: "\<forall>item \<in> set (history (deleteHistoryItem ident None s)). p_id item \<noteq> ident"
    by (simp add: deleteHistoryItem_def)
  have del3: "subseq (history (deleteHistoryItem ident None s)) (history s)"
    by (simp add: deleteHistoryItem_def)
  have lst: "length (history (loadHistory None s)) = length (table s)
   \<and> (\<forall>k < length (table s). history (loadHistory None s) ! k = (table s ! k)\<lparr>p_selected := Some False\<rparr>)"
    by (simp add: loadHistory_def getHistory_def)
  from ins del1 del2 del3 lst show ?thesis by blast
qed

theorem history_insert_delete_list_witness:
  "(\<exists>e. history (startProcessing (sample_env (Inr sample_response)) sample_state)
           = [e, sample_entry ''1'' (Some False)]
        \<and> table (startProcessing (sample_env (Inr sample_response)) sample_state)
           = [sample_entry ''1'' None, e]
        \<and> p_id e = ''1700000000123''
        \<and> p_originalUrl e = ''data:image/png;base64,QUJD''
        \<and> p_processedUrl e = ''data:image/png;base64,REVG'')
   \<and> history (deleteHistoryItem ''2'' None
        (sample_state\<lparr>history := [sample_entry ''3'' None, sample_entry ''2'' None, sample_entry ''1'' None]\<rparr>))
     = [sample_entry ''3'' None, sample_entry ''1'' None]
   \<and> history (loadHistory None sample_state) = [sample_entry ''1'' (Some False)]"
proof (intro conjI)
  have "\<exists>e. history (startProcessing (sample_env (Inr sample_response)) sample_state)
           = e # history sample_state
        \<and> table (startProcessing (sample_env (Inr sample_response)) sample_state)
           = table sample_state @ [e]
        \<and> p_id e = toString (dateNow1 (sample_env (Inr sample_response)))
        \<and> p_originalUrl e = ''data:image/png;base64,QUJD''
        \<and> p_processedUrl e = ''data:image/png;base64,REVG''"
    using history_insert_delete_list [of sample_state "sample_env (Inr sample_response)" "''2''"]
    by (simp add: sample_hyps sample_result del: toString.simps)
  then show "\<exists>e. history (startProcessing (sample_env (Inr sample_response)) sample_state)
           = [e, sample_entry ''1'' (Some False)]
        \<and> table (startProcessing (sample_env (Inr sample_response)) sample_state)
           = [sample_entry ''1'' None, e]
        \<and> p_id e = ''1700000000123''
        \<and> p_originalUrl e = ''data:image/png;base64,QUJD''
        \<and> p_processedUrl e = ''data:image/png;base64,REVG''"
    by (simp add: sample_hyps)
next
  show "history (deleteHistoryItem ''2'' None
        (sample_state\<lparr>history := [sample_entry ''3'' None, sample_entry ''2'' None, sample_entry ''1'' None]\<rparr>))
     = [sample_entry ''3'' None, sample_entry ''1'' None]"
    by (simp add: deleteHistoryItem_def sample_entry_def)
next
  show "history (loadHistory None sample_state) = [sample_entry ''1'' (Some False)]"
    by (simp add: loadHistory_def getHistory_def sample_hyps sample_entry_def)
qed

text \<open>
  Claim C6. \<open>toggleSelection\<close> keeps the length and the order of the history list; at
  every position it keeps id, original and processed image data, timestamp, prompt, size,
  aspect ratio, film stock, ISO and skin detail; it negates \<open>selected\<close> (an absent flag
  counts as false) where the id matches and leaves the record as it is where it does not;
  nothing but the history list changes in the state.
\<close>

theorem toggleSelection_frame:
  "length (history (toggleSelection ident s)) = length (history s)
   \<and> (\<forall>k < length (history s).
         p_id (history (toggleSelection ident s) ! k) = p_id (history s ! k)
       \<and> p_originalUrl (history (toggleSelection ident s) ! k) = p_originalUrl (history s ! k)
       \<and> p_processedUrl (history (toggleSelection ident s) ! k) = p_processedUrl (history s ! k)
       \<and> p_timestamp (history (toggleSelection ident s) ! k) = p_timestamp (history s ! k)
       \<and> p_prompt (history (toggleSelection ident s) ! k) = p_prompt (history s ! k)
       \<and> p_size (history (toggleSelection ident s) ! k) = p_size (history s ! k)
       \<and> p_aspectRatio (history (toggleSelection ident s) ! k) = p_aspectRatio (history s ! k)
       \<and> p_filmStock (history (toggleSelection ident s) ! k) = p_filmStock (history s ! k)
       \<and> p_iso (history (toggleSelection ident s) ! k) = p_iso (history s ! k)
       \<and> p_skinDetail (history (toggleSelection ident s) ! k) = p_skinDetail (history s ! k)
       \<and> (p_id (history s ! k) = ident \<longrightarrow>
            p_selected (history (toggleSelection ident s) ! k)
              = Some (\<not> (p_selected (history s ! k) = Some True)))
       \<and> (p_id (history s ! k) \<noteq> ident \<longrightarrow>
            history (toggleSelection ident s) ! k = history s ! k))
   \<and> toggleSelection ident s = s\<lparr>history := history (toggleSelection ident s)\<rparr>"
  by (simp add: toggleSelection_def)

theorem toggleSelection_frame_witness:
  "history (toggleSelection ''2''
      ((initial_state None [])\<lparr>history := [sample_entry ''3'' (Some True), sample_entry ''2'' (Some False), sample_entry ''1'' None]\<rparr>))
     = [sample_entry ''3'' (Some True), sample_entry ''2'' (Some True), sample_entry ''1'' None]
   \<and> history (toggleSelection ''3''
      ((initial_state None [])\<lparr>history := [sample_entry ''3'' (Some True), sample_entry ''2'' (Some False), sample_entry ''1'' None]\<rparr>))
     = [sample_entry ''3'' (Some False), sample_entry ''2'' (Some False), sample_entry ''1'' None]"
  using toggleSelection_frame [of "''2''"
      "(initial_state None [])\<lparr>history := [sample_entry ''3'' (Some True), sample_entry ''2'' (Some False), sample_entry ''1'' None]\<rparr>"]
    toggleSelection_frame [of "''3''"
      "(initial_state None [])\<lparr>history := [sample_entry ''3'' (Some True), sample_entry ''2'' (Some False), sample_entry ''1'' None]\<rparr>"]
  by (simp add: toggleSelection_def sample_entry_def initial_state_def)

section \<open>Failure of the service call\<close>

text \<open>
  Claim C8. In a run that reaches \<open>processImage\<close> and in which it throws: when the
  message is \<open>KEY_RESET_REQUIRED\<close>, the run ends with the session flag removed, the key
  modal open and status \<open>idle\<close>, nothing else changed; on every other failure the thrown
  message is not empty and the run ends with status \<open>error\<close> carrying that message,
  nothing else changed. In the transition system the settled call leaves the outstanding
  calls and no other call, key check or save is started: there is no retry.
\<close>

theorem startProcessing_key_reset:
  assumes "originalBase64 s = Some orig" and "orig \<noteq> []" and "sessionFlag s = Some ''true''"
    and "hasSelectedApiKey env" and "processImage (generateContent env) = Inl err"
  shows "(err_message err = Some ''KEY_RESET_REQUIRED'' \<longrightarrow>
            startProcessing env s = s\<lparr>sessionFlag := None, showKeyModal := True, processingState := idle\<rparr>)
       \<and> (err_message err \<noteq> Some ''KEY_RESET_REQUIRED'' \<longrightarrow>
            (\<exists>m. err_message err = Some m \<and> m \<noteq> []
               \<and> startProcessing env s = s\<lparr>processingState := \<lparr>status = Error, message = Some m\<rparr>\<rparr>))
       \<and> (\<forall>w k now1 now2. k < length (awaitingProcess w) \<longrightarrow>
            awaitingProcess (step (ProcessSettled k (generateContent env) now1 now2) w)
              = remove_nth k (awaitingProcess w)
          \<and> awaitingKey (step (ProcessSettled k (generateContent env) now1 now2) w) = awaitingKey w
          \<and> awaitingSave (step (ProcessSettled k (generateContent env) now1 now2) w) = awaitingSave w)"
proof -
  obtain m where m: "err_message err = Some m" "m \<noteq> []"
    using processImage_error_nonempty [OF assms(5)] by blast
  have run: "startProcessing env s =
      startProcessing_catch err (s\<lparr>processingState := \<lparr>status = Processing,
                  message = Some (''Developing as '' @ filmStock_name (filmStock s)
                    @ '' at ISO '' @ toString (iso_number (iso s)) @ ''...'')\<rparr>\<rparr>)"
    by (simp add: startProcessing_called [OF assms(1-4)] assms(5) startProcessing_afterProcess_def
          del: toString.simps)
  have reset: "err_message err = Some ''KEY_RESET_REQUIRED'' \<longrightarrow>
      startProcessing env s = s\<lparr>sessionFlag := None, showKeyModal := True, processingState := idle\<rparr>"
    by (simp add: run startProcessing_catch_def del: toString.simps)
  have other: "err_message err \<noteq> Some ''KEY_RESET_REQUIRED'' \<longrightarrow>
      (\<exists>m. err_message err = Some m \<and> m \<noteq> []
         \<and> startProcessing env s = s\<lparr>processingState := \<lparr>status = Error, message = Some m\<rparr>\<rparr>)"
    using m by (simp add: run startProcessing_catch_def del: toString.simps)
  have once: "\<forall>w k now1 now2. k < length (awaitingProcess w) \<longrightarrow>
            awaitingProcess (step (ProcessSettled k (generateContent env) now1 now2) w)
              = remove_nth k (awaitingProcess w)
          \<and> awaitingKey (step (ProcessSettled k (generateContent env) now1 now2) w) = awaitingKey w
          \<and> awaitingSave (step (ProcessSettled k (generateContent env) now1 now2) w) = awaitingSave w"
    by (simp add: assms(5) startProcessing_afterProcess_def split: prod.splits)
  from reset other once show ?thesis by blast
qed

theorem startProcessing_key_reset_witness:
  "startProcessing (sample_env (Inl \<lparr>err_message = Some ''Requested entity was not found.'', err_status = Number 404\<rparr>)) sample_state
     = sample_state\<lparr>sessionFlag := None, showKeyModal := True, processingState := idle\<rparr>
   \<and> startProcessing (sample_env (Inl \<lparr>err_message = Some ''fetch failed'', err_status = Undefined\<rparr>)) sample_state
     = sample_state\<lparr>processingState := \<lparr>status = Error, message = Some ''fetch failed''\<rparr>\<rparr>"
  using startProcessing_key_reset [of sample_state "''data:image/png;base64,QUJD''"
      "sample_env (Inl \<lparr>err_message = Some ''Requested entity was not found.'', err_status = Number 404\<rparr>)"
      "new_Error MSG_KEY_RESET"]
    startProcessing_key_reset [of sample_state "''data:image/png;base64,QUJD''"
      "sample_env (Inl \<lparr>err_message = Some ''fetch failed'', err_status = Undefined\<rparr>)"
      "new_Error ''fetch failed''"]
  by (simp add: sample_state_def sample_env_def initial_state_def processImage_def processImage_catch_def
        startsWith_def new_Error_def MSG_KEY_RESET_def)

text \<open>
  Claim C9. When \<open>processImage\<close> throws, the run leaves the history list, the table and
  the displayed processed image as they were. Whenever a run changes the history list or
  the table, \<open>processImage\<close> had resolved, and the record carrying its result is the one
  put in front of the list and appended to the table.
\<close>

theorem startProcessing_failure_atomic:
  "((\<exists>err. processImage (generateContent env) = Inl err) \<longrightarrow>
        history (startProcessing env s) = history s
      \<and> table (startProcessing env s) = table s
      \<and> processedUrl (startProcessing env s) = processedUrl s)
   \<and> (history (startProcessing env s) \<noteq> history s \<or> table (startProcessing env s) \<noteq> table s \<longrightarrow>
        (\<exists>url e. processImage (generateContent env) = Inr url
           \<and> p_processedUrl e = url
           \<and> history (startProcessing env s) = e # history s
           \<and> table (startProcessing env s) = table s @ [e]))"
proof -
  have "processImage (generateContent env) = Inl err \<Longrightarrow>
        history (startProcessing env s) = history s
      \<and> table (startProcessing env s) = table s
      \<and> processedUrl (startProcessing env s) = processedUrl s" for err
    by (simp add: startProcessing_def startProcessing_begin_def startProcessing_afterKey_def
          startProcessing_afterProcess_def startProcessing_catch_frame
          split: option.splits del: toString.simps)
  moreover have "history (startProcessing env s) \<noteq> history s \<or> table (startProcessing env s) \<noteq> table s \<Longrightarrow>
        (\<exists>url e. processImage (generateContent env) = Inr url
           \<and> p_processedUrl e = url
           \<and> history (startProcessing env s) = e # history s
           \<and> table (startProcessing env s) = table s @ [e])"
    by (cases "processImage (generateContent env)"; cases "saveSettled env")
       (auto simp: startProcessing_def startProcessing_begin_def startProcessing_afterKey_def
          startProcessing_afterProcess_def startProcessing_afterSave_def startProcessing_catch_frame
          saveHistoryItem_def Let_def
          split: option.splits if_splits simp del: toString.simps)
  ultimately show ?thesis by blast
qed

theorem startProcessing_failure_atomic_witness:
  "history (startProcessing (sample_env (Inl \<lparr>err_message = Some ''HTTP 429'', err_status = Undefined\<rparr>)) sample_state)
     = history sample_state
   \<and> table (startProcessing (sample_env (Inl \<lparr>err_message = Some ''HTTP 429'', err_status = Undefined\<rparr>)) sample_state)
     = table sample_state
   \<and> processedUrl (startProcessing (sample_env (Inl \<lparr>err_message = Some ''HTTP 429'', err_status = Undefined\<rparr>)) sample_state)
     = None
   \<and> status (processingState (startProcessing (sample_env (Inl \<lparr>err_message = Some ''HTTP 429'', err_status = Undefined\<rparr>)) sample_state))
     = Error
   \<and> length (history (startProcessing (sample_env (Inr sample_response)) sample_state)) = 2
   \<and> length (table (startProcessing (sample_env (Inr sample_response)) sample_state)) = 2"
  using startProcessing_failure_atomic [of "sample_env (Inl \<lparr>err_message = Some ''HTTP 429'', err_status = Undefined\<rparr>)" sample_state]
    startProcessing_failure_atomic [of "sample_env (Inr sample_response)" sample_state]
  by (simp add: sample_state_def sample_env_def sample_response_def initial_state_def
        processImage_def processImage_try_def processImage_catch_def parts_of_def
        startsWith_def new_Error_def MSG_RATE_LIMIT_def
        startProcessing_def startProcessing_begin_def startProcessing_afterKey_def
        startProcessing_afterProcess_def startProcessing_afterSave_def startProcessing_catch_def
        saveHistoryItem_def)

section \<open>No second request while one is pending\<close>

text \<open>
  Claim C7. The submit button is disabled whenever the status is not \<open>idle\<close>, yet that
  does not keep the outstanding calls of \<open>processImage\<close> at one: \<open>handleFileUpload\<close> sets
  the status to \<open>idle\<close> without regard to a pending run. With a session active, load an
  image, start, let the key check succeed (one call outstanding, button disabled), load
  another image (button enabled again, the call still outstanding), start again and let the
  key check succeed: two calls are outstanding.
\<close>

theorem double_submit_trace:
  "length (awaitingProcess (run
       [KeyActivated,
        FileLoaded ''data:image/png;base64,QUJD'' 1024 1024, ClickStart, KeySettled 0 True,
        FileLoaded ''data:image/png;base64,REVG'' 1024 1024]
       (initial_world None []))) = 1
   \<and> status (processingState (app (run
       [KeyActivated,
        FileLoaded ''data:image/png;base64,QUJD'' 1024 1024, ClickStart, KeySettled 0 True]
       (initial_world None [])))) = Processing
   \<and> submit_disabled (app (run
       [KeyActivated,
        FileLoaded ''data:image/png;base64,QUJD'' 1024 1024, ClickStart, KeySettled 0 True]
       (initial_world None [])))
   \<and> submit_disabled (app (run
       [KeyActivated,
        FileLoaded ''data:image/png;base64,QUJD'' 1024 1024, ClickStart, KeySettled 0 True,
        FileLoaded ''data:image/png;base64,REVG'' 1024 1024]
       (initial_world None []))) = False
   \<and> length (awaitingProcess (run
       [KeyActivated,
        FileLoaded ''data:image/png;base64,QUJD'' 1024 1024, ClickStart, KeySettled 0 True,
        FileLoaded ''data:image/png;base64,REVG'' 1024 1024, ClickStart, KeySettled 0 True]
       (initial_world None []))) = 2"
  by (simp add: run_def initial_world_def initial_state_def handleKeyActivation_def
        handleFileUpload_def submit_disabled_def startProcessing_begin_def
        startProcessing_afterKey_def idle_def remove_nth_def del: toString.simps)

theorem double_submit_trace_witness:
  "\<not> length (awaitingProcess (run
       [KeyActivated,
        FileLoaded ''data:image/png;base64,QUJD'' 1024 1024, ClickStart, KeySettled 0 True,
        FileLoaded ''data:image/png;base64,REVG'' 1024 1024, ClickStart, KeySettled 0 True]
       (initial_world None []))) \<le> 1"
  using double_submit_trace by simp

section \<open>The closest aspect ratio\<close>

lemma fl_0: "fl 0 = 0"
  by (simp add: fl_def)

lemma fl_1: "fl 1 = 1"
  by code_simp

lemma js_div_self: "x \<noteq> 0 \<Longrightarrow> js_div x x = 1"
  by (simp add: js_div_def fl_1)

lemma js_sub_self: "js_sub x x = 0"
  by (simp add: js_sub_def fl_0)

lemma closer_cases:
  "closer ratio prev current = current \<and> \<bar>js_sub (fst current) ratio\<bar> < \<bar>js_sub (fst prev) ratio\<bar>
   \<or> closer ratio prev current = prev \<and> \<bar>js_sub (fst prev) ratio\<bar> \<le> \<bar>js_sub (fst current) ratio\<bar>"
  by (simp add: closer_def)

lemma ratio_value_exact:
  "ratio_value R1_1 = 1" "ratio_value R3_4 = 3 / 4" "ratio_value R9_16 = 9 / 16"
  "ratio_value R4_3 = 6004799503160661 / 4503599627370496"
  "ratio_value R16_9 = 2001599834386887 / 1125899906842624"
  by code_simp+

text \<open>
  Claim C10, as the code has it. For positive width and height the result is one of the
  five ratios and is nearest in double arithmetic: the absolute value of the rounded
  difference between its double value and the rounded quotient \<open>width / height\<close> is at
  most that of every entry and strictly below that of every earlier entry of the list;
  a square image yields \<open>1:1\<close>. The double values are 1, 3/4, 9/16 exactly and the
  doubles nearest to 4/3 and 16/9 (\<open>ratio_value_exact\<close>).
\<close>

theorem calculateClosestAspectRatio_nearest:
  assumes "0 < width" and "0 < height"
  shows "(\<forall>a. \<bar>js_sub (ratio_value (calculateClosestAspectRatio width height))
                   (js_div (of_nat width) (of_nat height))\<bar>
             \<le> \<bar>js_sub (ratio_value a) (js_div (of_nat width) (of_nat height))\<bar>)
       \<and> (\<forall>a. ratio_index a < ratio_index (calculateClosestAspectRatio width height) \<longrightarrow>
             \<bar>js_sub (ratio_value (calculateClosestAspectRatio width height))
                   (js_div (of_nat width) (of_nat height))\<bar>
             < \<bar>js_sub (ratio_value a) (js_div (of_nat width) (of_nat height))\<bar>)
       \<and> (width = height \<longrightarrow> calculateClosestAspectRatio width height = R1_1)"
proof -
  define ratio where "ratio = js_div (of_nat width) (of_nat height)"
  define D where "D = (\<lambda>p :: rat \<times> AspectRatio. \<bar>js_sub (fst p) ratio\<bar>)"
  define r where "r = calculateClosestAspectRatio width height"
  have pick: "closer ratio p c = (if D c < D p then c else p)" for p c
    by (simp add: closer_def D_def)
  have r: "r = snd (foldl (closer ratio) (1, R1_1)
                 [(js_div 3 4, R3_4), (js_div 4 3, R4_3), (js_div 9 16, R9_16), (js_div 16 9, R16_9)])"
    using assms by (simp add: r_def calculateClosestAspectRatio_def ratio_def Let_def)
  have d: "\<bar>js_sub (ratio_value a) ratio\<bar> = D (ratio_value a, a)" for a
    by (simp add: D_def)
  have least: "D (ratio_value r, r) \<le> D (ratio_value a, a)" for a
    by (cases a) (simp_all add: r pick)
  have first: "ratio_index a < ratio_index r \<Longrightarrow> D (ratio_value r, r) < D (ratio_value a, a)" for a
    by (cases a) (simp_all add: r pick split: if_splits)
  have square: "width = height \<Longrightarrow> r = R1_1"
  proof -
    assume "width = height"
    with assms have "ratio = 1"
      by (simp add: ratio_def js_div_self)
    then show ?thesis
      by (simp add: r closer_def js_sub_self)
  qed
  from least first square show ?thesis
    unfolding d [symmetric] r_def ratio_def by blast
qed

theorem calculateClosestAspectRatio_nearest_witness:
  "0 < (1024 :: nat)
   \<and> calculateClosestAspectRatio 1024 1024 = R1_1
   \<and> calculateClosestAspectRatio 16 9 = R16_9
   \<and> \<bar>js_sub (ratio_value R16_9) (js_div 16 9)\<bar> = 0
   \<and> calculateClosestAspectRatio 3 2 = R4_3"
proof -
  have pos: "0 < (1024 :: nat)"
    by simp
  from calculateClosestAspectRatio_nearest [OF pos pos]
  have "calculateClosestAspectRatio 1024 1024 = R1_1"
    by blast
  moreover have "calculateClosestAspectRatio 16 9 = R16_9"
    by code_simp
  moreover have "\<bar>js_sub (ratio_value R16_9) (js_div 16 9)\<bar> = 0"
    by (simp add: js_sub_self)
  moreover have "calculateClosestAspectRatio 3 2 = R4_3"
    by code_simp
  ultimately show ?thesis using pos by blast
qed

text \<open>
  In exact arithmetic 7/6 is as far from 1 as from 4/3, and \<open>1:1\<close> is the earlier entry;
  the doubles nearest to 7/6 and 4/3 are closer together, and a 7 by 6 image yields
  \<open>4:3\<close>.
\<close>

theorem calculateClosestAspectRatio_tie_counterexample:
  "calculateClosestAspectRatio 7 6 = R4_3
   \<and> \<bar>ratio_exact R1_1 - 7 / 6\<bar> = \<bar>ratio_exact R4_3 - 7 / 6\<bar>
   \<and> ratio_index R1_1 < ratio_index R4_3"
proof -
  have "calculateClosestAspectRatio 7 6 = R4_3"
    by code_simp
  moreover have "\<bar>ratio_exact R1_1 - 7 / 6\<bar> = \<bar>ratio_exact R4_3 - 7 / 6\<bar>"
    by simp
  ultimately show ?thesis by simp
qed

end
